theory Spec2Isabelle
  imports Main "HOL-Library.Sublist" "HOL-Library.Word"
begin

section \<open>The Go string functions the coordinator calls\<close>

text \<open>
  A Go string is a sequence of bytes and \<open>len\<close> counts bytes, which is what
  \<^typ>\<open>string\<close> (a list of 8-bit characters) is. The functions below follow package
  \<open>strings\<close>: \<open>Contains\<close> looks for one occurrence, \<open>Split\<close> cuts at the
  non-overlapping occurrences of the separator found from the left and returns one
  piece more than it found separators (so the empty string splits into one empty piece).
\<close>

definition strings_HasPrefix :: "string \<Rightarrow> string \<Rightarrow> bool" where
  "strings_HasPrefix s p = prefix p s"

definition strings_HasSuffix :: "string \<Rightarrow> string \<Rightarrow> bool" where
  "strings_HasSuffix s p = suffix p s"

fun strings_Contains :: "string \<Rightarrow> string \<Rightarrow> bool" where
  "strings_Contains [] sub = (sub = [])"
| "strings_Contains (c # cs) sub = (prefix sub (c # cs) \<or> strings_Contains cs sub)"

function split_loop :: "string \<Rightarrow> string \<Rightarrow> string \<Rightarrow> string list" where
  "split_loop sep piece [] = [rev piece]"
| "split_loop sep piece (c # cs) =
     (if sep \<noteq> [] \<and> prefix sep (c # cs)
      then rev piece # split_loop sep [] (drop (length sep) (c # cs))
      else split_loop sep (c # piece) cs)"
  by pat_completeness auto
termination
  by (relation "measure (\<lambda>(sep, piece, s). length s)") auto

definition strings_Split :: "string \<Rightarrow> string \<Rightarrow> string list" where
  \<comment> \<open>With an empty separator Go cuts after every UTF-8 sequence; no caller here passes one.\<close>
  "strings_Split s sep = (if sep = [] then map (\<lambda>c. [c]) s else split_loop sep [] s)"

fun strings_Join :: "string list \<Rightarrow> string \<Rightarrow> string" where
  "strings_Join [] sep = []"
| "strings_Join [x] sep = x"
| "strings_Join (x # y # ys) sep = x @ sep @ strings_Join (y # ys) sep"

section \<open>IP masking (master/ws/iputils.go and the ws client)\<close>

text \<open>\<open>padHex\<close>: the loop \<open>for len(s) < 4 { s = "0" + s }\<close>.\<close>

function padHex :: "string \<Rightarrow> string" where
  "padHex s = (if length s < 4 then padHex (CHR ''0'' # s) else s)"
  by pat_completeness auto
termination
  by (relation "measure (\<lambda>s. 4 - length s)") auto

declare padHex.simps [simp del]

text \<open>
  The loops of \<open>expandIPv6\<close> that check and pad one segment after the other; \<open>None\<close>
  is the early \<open>return ""\<close> at a segment that is empty or longer than four bytes.
\<close>

fun padSegments :: "string list \<Rightarrow> string list option" where
  "padSegments [] = Some []"
| "padSegments (part # parts) =
     (if length part = 0 \<or> length part > 4 then None
      else map_option ((#) (padHex part)) (padSegments parts))"

definition expandIPv6 :: "string \<Rightarrow> string" where
  "expandIPv6 ip0 =
     (if ip0 = [] then []
      else
        let ip1 = (if strings_HasPrefix ip0 ''::'' then ''0'' @ ip0 else ip0);
            ip = (if strings_HasSuffix ip1 ''::'' then ip1 @ ''0'' else ip1)
        in if \<not> strings_Contains ip ''::'' then
             (let parts = strings_Split ip '':'' in
              if length parts \<noteq> 8 then []
              else (case padSegments parts of
                      None \<Rightarrow> []
                    | Some padded \<Rightarrow> strings_Join padded '':''))
           else
             (let halves = strings_Split ip ''::'' in
              if length halves \<noteq> 2 then []
              else
                let leftParts = (if halves ! 0 \<noteq> [] then strings_Split (halves ! 0) '':'' else []);
                    rightParts = (if halves ! 1 \<noteq> [] then strings_Split (halves ! 1) '':'' else []);
                    missingCount = 8 - int (length leftParts) - int (length rightParts)
                in if missingCount < 1 then []
                   else (case padSegments leftParts of
                           None \<Rightarrow> []
                         | Some left \<Rightarrow>
                             (case padSegments rightParts of
                                None \<Rightarrow> []
                              | Some right \<Rightarrow>
                                  strings_Join
                                    (left @ replicate (nat missingCount) ''0000'' @ right) '':''))))"

definition maskIPv6Address :: "string \<Rightarrow> string" where
  "maskIPv6Address ip =
     (if ip = [] then ip
      else
        let expandedIP = expandIPv6 ip in
        if expandedIP = [] then ip
        else
          let parts = strings_Split expandedIP '':'' in
          if length parts \<noteq> 8 then ip
          else strings_Join
                 (parts[1 := ''****'', 2 := ''****'', 3 := ''****'',
                        4 := ''****'', 5 := ''****'', 6 := ''****'']) '':'')"

definition maskIP :: "string \<Rightarrow> bool \<Rightarrow> string" where
  "maskIP ip shouldMask =
     (if \<not> shouldMask \<or> ip = [] then ip
      else if strings_Contains ip '':'' then maskIPv6Address ip
      else
        let parts = strings_Split ip ''.'' in
        if length parts \<noteq> 4 then ip
        else parts ! 0 @ ''.'' @ parts ! 1 @ ''.*.*'')"

text \<open>\<open>maskIPAddress\<close> of the ws server has the same body as \<open>maskIP\<close> of the ws client.\<close>

definition maskIPAddress :: "string \<Rightarrow> bool \<Rightarrow> string" where
  "maskIPAddress ip shouldMask =
     (if \<not> shouldMask \<or> ip = [] then ip
      else if strings_Contains ip '':'' then maskIPv6Address ip
      else
        let parts = strings_Split ip ''.'' in
        if length parts \<noteq> 4 then ip
        else parts ! 0 @ ''.'' @ parts ! 1 @ ''.*.*'')"

section \<open>Protocol data and coordinator state\<close>

text \<open>
  Modelled from the spec: the generated protobuf package \<open>pb\<close> is not among the
  sources, so the two enumerations carry the values the specification lists (task status
  Pending, Running, Completed, Failed, Cancelled; probe status Online, Offline) under the
  names the Go code uses, and the messages carry the fields the Go code reads or writes.
\<close>

datatype TaskStatus =
    TASK_STATUS_PENDING
  | TASK_STATUS_RUNNING
  | TASK_STATUS_COMPLETED
  | TASK_STATUS_FAILED
  | TASK_STATUS_CANCELLED

datatype AgentStatus = AGENT_STATUS_ONLINE | AGENT_STATUS_OFFLINE

text \<open>Go's \<open>int\<close> (64 bits on the supported platforms) and \<open>int32\<close>, compared as signed.\<close>

type_synonym go_int = "64 word"
type_synonym int32 = "32 word"

record Task =
  task_TaskId :: string
  task_AgentId :: string
  task_TaskName :: string

record TaskOutput =
  out_TaskId :: string
  out_OutputLine :: string
  out_ErrorMessage :: string
  out_Status :: TaskStatus
  out_Timestamp :: "int option"

record AgentInfo =
  info_Id :: string
  info_Name :: string
  info_Location :: string
  info_Ipv4 :: string
  info_Ipv6 :: string
  info_HideIp :: bool
  info_MaxConcurrent :: int32

record Agent =
  agent_Info :: AgentInfo
  agent_Status :: AgentStatus
  agent_LastHeartbeat :: int
  agent_CurrentTasks :: int32
  agent_GRPCConn :: bool
  agent_UseStream :: bool

text \<open>
  \<open>TaskInfo\<close> of the scheduler. \<open>CancelFunc\<close> is the cancel function of the task's
  context; \<open>ti_Cancelled\<close> records that it has been called.
\<close>

record TaskInfo =
  ti_Task :: Task
  ti_AgentID :: string
  ti_Status :: TaskStatus
  ti_CreatedAt :: int
  ti_ClientID :: string
  ti_Cancelled :: bool

text \<open>
  An output handler is a Go closure \<open>func(*pb.TaskOutput)\<close>, possibly \<open>nil\<close>. The
  closure is known by a name (the ws client builds one per request, writing to that
  client), and calling it appends the name and the output to \<open>handlerCalls\<close>.
\<close>

datatype OutputHandler = NilFunc | Func string

datatype MasterMessage =
    RegisterResponseMsg bool string
  | HeartbeatResponseMsg
  | ExecuteTaskMsg Task
  | CancelTaskMsg string

text \<open>
  The coordinator's shared objects in one record: the agent \<open>Manager\<close> (\<open>agents\<close>,
  \<open>heartbeatTimeout\<close>), the \<open>StreamRegistry\<close> (\<open>agentStreams\<close>, a stream being
  known by a number), the \<open>StreamHandler\<close> (\<open>taskOutputHandler\<close> is whether one
  is set), the \<open>Scheduler\<close> (\<open>streamSender\<close> is whether one is set,
  \<open>globalMaxTasks\<close>, \<open>currentTasks\<close>, \<open>tasks\<close>, \<open>outputHandlers\<close>) and the ws
  \<open>Server\<close> (\<open>clients\<close>). The last three fields record effects: the calls of output
  handlers, the messages sent to agents through the registry, and the number of
  \<open>notifyStatusChange\<close> calls. Mutexes, logging and the push-notification backend
  carry no state that is read back and are left out; every function below runs
  from its first statement to its last without interleaving.
\<close>

record system =
  agents :: "string \<rightharpoonup> Agent"
  heartbeatTimeout :: int
  agentStreams :: "string \<rightharpoonup> nat"
  taskOutputHandler :: bool
  streamSender :: bool
  globalMaxTasks :: go_int
  currentTasks :: go_int
  tasks :: "string \<rightharpoonup> TaskInfo"
  outputHandlers :: "string \<rightharpoonup> OutputHandler"
  clients :: "string set"
  handlerCalls :: "(string \<times> TaskOutput) list"
  sentToAgent :: "(string \<times> MasterMessage) list"
  statusChanges :: nat

text \<open>\<open>%d\<close> of \<open>fmt.Errorf\<close>.\<close>

function fmt_nat :: "nat \<Rightarrow> string" where
  "fmt_nat n =
     (if n < 10 then [''0123456789'' ! n]
      else fmt_nat (n div 10) @ [''0123456789'' ! (n mod 10)])"
  by pat_completeness auto
termination
  by (relation "measure (\<lambda>n. n)") auto

declare fmt_nat.simps [simp del]

definition fmt_d :: "int \<Rightarrow> string" where
  "fmt_d i = (if i < 0 then ''-'' @ fmt_nat (nat (- i)) else fmt_nat (nat i))"

section \<open>Agent manager (master/agent)\<close>

text \<open>Errors are the messages of \<open>fmt.Errorf\<close>; \<open>None\<close> is a \<open>nil\<close> error.\<close>

definition GetAgent :: "string \<Rightarrow> system \<Rightarrow> string + Agent" where
  "GetAgent agentID s =
     (case agents s agentID of
        None \<Rightarrow> Inl (''agent not found: '' @ agentID)
      | Some agent \<Rightarrow> Inr agent)"

definition Register :: "AgentInfo \<Rightarrow> int \<Rightarrow> string option \<Rightarrow> system \<Rightarrow> string option \<times> system" where
  \<comment> \<open>Deprecated registration over unary gRPC; \<open>connErr\<close> is the result of \<open>grpc.NewClient\<close>.\<close>
  "Register info now connErr s =
     (case agents s (info_Id info) of
        Some existingAgent \<Rightarrow>
          (None, s\<lparr>agents := (agents s)(info_Id info \<mapsto>
                     existingAgent\<lparr>agent_Info := info, agent_Status := AGENT_STATUS_ONLINE,
                                    agent_LastHeartbeat := now\<rparr>)\<rparr>)
      | None \<Rightarrow>
          (case connErr of
             Some err \<Rightarrow> (Some (''failed to connect to agent: '' @ err), s)
           | None \<Rightarrow>
               (None, s\<lparr>agents := (agents s)(info_Id info \<mapsto>
                          \<lparr>agent_Info = info, agent_Status = AGENT_STATUS_ONLINE,
                           agent_LastHeartbeat = now, agent_CurrentTasks = 0,
                           agent_GRPCConn = True, agent_UseStream = False\<rparr>)\<rparr>)))"

definition notifyStatusChange :: "system \<Rightarrow> system" where
  "notifyStatusChange s = s\<lparr>statusChanges := Suc (statusChanges s)\<rparr>"

definition RegisterAgentFromStream :: "AgentInfo \<Rightarrow> int \<Rightarrow> system \<Rightarrow> string option \<times> system" where
  "RegisterAgentFromStream info now s =
     (case agents s (info_Id info) of
        Some existingAgent \<Rightarrow>
          (let wasOffline = (agent_Status existingAgent = AGENT_STATUS_OFFLINE);
               s1 = s\<lparr>agents := (agents s)(info_Id info \<mapsto>
                         existingAgent\<lparr>agent_Info := info, agent_Status := AGENT_STATUS_ONLINE,
                                        agent_LastHeartbeat := now, agent_UseStream := True,
                                        agent_GRPCConn := False\<rparr>)\<rparr>
           in (None, if wasOffline then notifyStatusChange s1 else s1))
      | None \<Rightarrow>
          (None, notifyStatusChange
                   (s\<lparr>agents := (agents s)(info_Id info \<mapsto>
                         \<lparr>agent_Info = info, agent_Status = AGENT_STATUS_ONLINE,
                          agent_LastHeartbeat = now, agent_CurrentTasks = 0,
                          agent_GRPCConn = False, agent_UseStream = True\<rparr>)\<rparr>)))"

definition UpdateHeartbeat :: "string \<Rightarrow> go_int \<Rightarrow> int \<Rightarrow> system \<Rightarrow> string option \<times> system" where
  \<comment> \<open>\<open>int32(currentTasks)\<close> keeps the low 32 bits.\<close>
  "UpdateHeartbeat agentID currentTasks' now s =
     (case agents s agentID of
        None \<Rightarrow> (Some (''agent not found: '' @ agentID), s)
      | Some agent \<Rightarrow>
          (None, s\<lparr>agents := (agents s)(agentID \<mapsto>
                     agent\<lparr>agent_LastHeartbeat := now,
                           agent_CurrentTasks := ucast currentTasks',
                           agent_Status := AGENT_STATUS_ONLINE\<rparr>)\<rparr>))"

definition MarkAgentOffline :: "string \<Rightarrow> system \<Rightarrow> system" where
  "MarkAgentOffline agentID s =
     (case agents s agentID of
        None \<Rightarrow> s
      | Some agent \<Rightarrow>
          if agent_Status agent = AGENT_STATUS_ONLINE
          then notifyStatusChange
                 (s\<lparr>agents := (agents s)(agentID \<mapsto> agent\<lparr>agent_Status := AGENT_STATUS_OFFLINE\<rparr>)\<rparr>)
          else s)"

definition IncrementTaskCount :: "string \<Rightarrow> system \<Rightarrow> string option \<times> system" where
  "IncrementTaskCount agentID s =
     (case agents s agentID of
        None \<Rightarrow> (Some (''agent not found: '' @ agentID), s)
      | Some agent \<Rightarrow>
          (None, s\<lparr>agents := (agents s)(agentID \<mapsto>
                     agent\<lparr>agent_CurrentTasks := agent_CurrentTasks agent + 1\<rparr>)\<rparr>))"

definition DecrementTaskCount :: "string \<Rightarrow> system \<Rightarrow> string option \<times> system" where
  "DecrementTaskCount agentID s =
     (case agents s agentID of
        None \<Rightarrow> (Some (''agent not found: '' @ agentID), s)
      | Some agent \<Rightarrow>
          (None,
           if sint (agent_CurrentTasks agent) > 0
           then s\<lparr>agents := (agents s)(agentID \<mapsto>
                    agent\<lparr>agent_CurrentTasks := agent_CurrentTasks agent - 1\<rparr>)\<rparr>
           else s))"

definition checkOfflineAgents :: "int \<Rightarrow> system \<Rightarrow> system" where
  \<comment> \<open>The sweep: every online agent whose last heartbeat is older than the timeout.\<close>
  "checkOfflineAgents now s =
     s\<lparr>agents := (\<lambda>id.
          case agents s id of
            None \<Rightarrow> None
          | Some agent \<Rightarrow>
              if agent_Status agent = AGENT_STATUS_ONLINE
                 \<and> now - agent_LastHeartbeat agent > heartbeatTimeout s
              then Some (agent\<lparr>agent_Status := AGENT_STATUS_OFFLINE\<rparr>)
              else Some agent)\<rparr>"

section \<open>Stream registry (master/agent/stream_registry.go)\<close>

definition RegisterAgentStream :: "string \<Rightarrow> nat \<Rightarrow> system \<Rightarrow> system" where
  "RegisterAgentStream agentID stream s = s\<lparr>agentStreams := (agentStreams s)(agentID \<mapsto> stream)\<rparr>"

definition UnregisterAgentStream :: "string \<Rightarrow> system \<Rightarrow> system" where
  "UnregisterAgentStream agentID s = s\<lparr>agentStreams := (agentStreams s)(agentID := None)\<rparr>"

definition SendToAgent :: "string \<Rightarrow> MasterMessage \<Rightarrow> string option \<Rightarrow> system \<Rightarrow> string option \<times> system" where
  \<comment> \<open>\<open>sendErr\<close> is the result of \<open>stream.Send\<close>, which the transport decides.\<close>
  "SendToAgent agentID msg sendErr s =
     (case agentStreams s agentID of
        None \<Rightarrow> (Some (''agent '' @ agentID @ '' not connected''), s)
      | Some stream \<Rightarrow>
          (case sendErr of
             Some err \<Rightarrow> (Some err, s)
           | None \<Rightarrow> (None, s\<lparr>sentToAgent := sentToAgent s @ [(agentID, msg)]\<rparr>)))"

section \<open>Task scheduler (master/task/scheduler.go)\<close>

definition StreamHandler_SendTaskToAgent :: "string \<Rightarrow> Task \<Rightarrow> string option \<Rightarrow> system \<Rightarrow> string option \<times> system" where
  "StreamHandler_SendTaskToAgent agentID task sendErr s = SendToAgent agentID (ExecuteTaskMsg task) sendErr s"

definition StreamHandler_CancelTaskOnAgent :: "string \<Rightarrow> string \<Rightarrow> string option \<Rightarrow> system \<Rightarrow> string option \<times> system" where
  "StreamHandler_CancelTaskOnAgent agentID taskID sendErr s = SendToAgent agentID (CancelTaskMsg taskID) sendErr s"

definition Manager_ExecuteTaskOnAgent :: "string \<Rightarrow> string option \<Rightarrow> system \<Rightarrow> string option" where
  \<comment> \<open>Deprecated gRPC call; \<open>grpcErr\<close> is the result of the remote call, \<open>None\<close> a stream.\<close>
  "Manager_ExecuteTaskOnAgent agentID grpcErr s =
     (case GetAgent agentID s of
        Inl err \<Rightarrow> Some err
      | Inr agent \<Rightarrow>
          if agent_Status agent \<noteq> AGENT_STATUS_ONLINE then Some (''agent is offline: '' @ agentID)
          else if agent_UseStream agent
          then Some ''agent uses stream communication, use StreamHandler.SendTaskToAgent instead''
          else (case grpcErr of
                  Some err \<Rightarrow> Some (''failed to execute task on agent: '' @ err)
                | None \<Rightarrow> None))"

definition filterOutput :: "TaskOutput option \<Rightarrow> bool" where
  "filterOutput output =
     (case output of
        None \<Rightarrow> True
      | Some out \<Rightarrow>
          if strings_Contains (out_OutputLine out) ''MapTrace URL''
             \<or> strings_Contains (out_OutputLine out) ''NextTrace''
             \<or> strings_Contains (out_OutputLine out) ''IP Geo Data Provider''
          then True
          else False)"

definition forwardOutput :: "TaskOutput \<Rightarrow> system \<Rightarrow> system" where
  "forwardOutput output s =
     (case outputHandlers s (out_TaskId output) of
        Some (Func h) \<Rightarrow> s\<lparr>handlerCalls := handlerCalls s @ [(h, output)]\<rparr>
      | _ \<Rightarrow> s)"

definition updateTaskStatus :: "string \<Rightarrow> TaskStatus \<Rightarrow> system \<Rightarrow> system" where
  "updateTaskStatus taskID status s =
     (case tasks s taskID of
        Some taskInfo \<Rightarrow> s\<lparr>tasks := (tasks s)(taskID \<mapsto> taskInfo\<lparr>ti_Status := status\<rparr>)\<rparr>
      | None \<Rightarrow> s)"

definition completeTask :: "string \<Rightarrow> TaskStatus \<Rightarrow> system \<Rightarrow> system" where
  "completeTask taskID status s =
     (case tasks s taskID of
        None \<Rightarrow> s
      | Some taskInfo \<Rightarrow>
          let s1 = s\<lparr>tasks := (tasks s)(taskID \<mapsto> taskInfo\<lparr>ti_Status := status\<rparr>),
                     currentTasks := currentTasks s - 1\<rparr>;
              s2 = snd (DecrementTaskCount (ti_AgentID taskInfo) s1);
              s3 = (case outputHandlers s2 taskID of
                      Some (Func h) \<Rightarrow>
                        if status = TASK_STATUS_COMPLETED \<or> status = TASK_STATUS_CANCELLED
                        then s2\<lparr>handlerCalls := handlerCalls s2 @
                                 [(h, \<lparr>out_TaskId = taskID, out_OutputLine = [],
                                       out_ErrorMessage = [], out_Status = status,
                                       out_Timestamp = None\<rparr>)]\<rparr>
                        else s2
                    | _ \<Rightarrow> s2)
          in s3\<lparr>outputHandlers := (outputHandlers s3)(taskID := None)\<rparr>)"

definition handleTaskError :: "string \<Rightarrow> string \<Rightarrow> int \<Rightarrow> system \<Rightarrow> system" where
  \<comment> \<open>\<open>err\<close> is \<open>err.Error()\<close>, \<open>now\<close> the clock read for the timestamp.\<close>
  "handleTaskError taskID err now s =
     completeTask taskID TASK_STATUS_FAILED
       (forwardOutput \<lparr>out_TaskId = taskID, out_OutputLine = [], out_ErrorMessage = err,
                       out_Status = TASK_STATUS_FAILED, out_Timestamp = Some now\<rparr> s)"

definition HandleTaskOutput :: "TaskOutput option \<Rightarrow> system \<Rightarrow> system" where
  "HandleTaskOutput output s =
     (case output of
        None \<Rightarrow> s
      | Some out \<Rightarrow>
          let taskID = out_TaskId out;
              s1 = (if \<not> filterOutput (Some out) then forwardOutput out s else s)
          in if out_Status out = TASK_STATUS_COMPLETED then completeTask taskID TASK_STATUS_COMPLETED s1
             else if out_Status out = TASK_STATUS_FAILED then completeTask taskID TASK_STATUS_FAILED s1
             else if out_Status out = TASK_STATUS_CANCELLED then completeTask taskID TASK_STATUS_CANCELLED s1
             else s1)"

text \<open>
  What the transport and the clock decide while one task is dispatched: the time, the
  result of \<open>stream.Send\<close>, and for an agent of the deprecated gRPC kind the result of
  the call, the outputs its stream yields and the error that ends it (\<open>EOF\<close> at a
  regular end).
\<close>

record exec_env =
  env_now :: int
  env_sendErr :: "string option"
  env_grpcErr :: "string option"
  env_recv :: "TaskOutput list"
  env_recvErr :: string

text \<open>The receive loop of \<open>executeTask\<close> over the outputs of a gRPC stream.\<close>

fun legacy_recv :: "string \<Rightarrow> TaskOutput list \<Rightarrow> string \<Rightarrow> int \<Rightarrow> system \<Rightarrow> system" where
  "legacy_recv taskID [] recvErr now s =
     (if recvErr = ''EOF'' then completeTask taskID TASK_STATUS_COMPLETED s
      else handleTaskError taskID recvErr now s)"
| "legacy_recv taskID (out # outs) recvErr now s =
     (let s1 = (if \<not> filterOutput (Some out) then forwardOutput out s else s)
      in if out_Status out = TASK_STATUS_COMPLETED then completeTask taskID TASK_STATUS_COMPLETED s1
         else if out_Status out = TASK_STATUS_FAILED then completeTask taskID TASK_STATUS_FAILED s1
         else if out_Status out = TASK_STATUS_CANCELLED then completeTask taskID TASK_STATUS_CANCELLED s1
         else legacy_recv taskID outs recvErr now s1)"

definition executeTask :: "Task \<Rightarrow> exec_env \<Rightarrow> system \<Rightarrow> system" where
  "executeTask task env s =
     (let s1 = updateTaskStatus (task_TaskId task) TASK_STATUS_RUNNING s in
      case GetAgent (task_AgentId task) s1 of
        Inl err \<Rightarrow> handleTaskError (task_TaskId task) err (env_now env) s1
      | Inr agent \<Rightarrow>
          if agent_UseStream agent then
            (if \<not> streamSender s1
             then handleTaskError (task_TaskId task) ''stream sender not configured'' (env_now env) s1
             else (case StreamHandler_SendTaskToAgent (task_AgentId task) task (env_sendErr env) s1 of
                     (Some err, s2) \<Rightarrow> handleTaskError (task_TaskId task) err (env_now env) s2
                   | (None, s2) \<Rightarrow> s2))
          else
            (case Manager_ExecuteTaskOnAgent (task_AgentId task) (env_grpcErr env) s1 of
               Some err \<Rightarrow> handleTaskError (task_TaskId task) err (env_now env) s1
             | None \<Rightarrow> legacy_recv (task_TaskId task) (env_recv env) (env_recvErr env) (env_now env) s1))"

definition SubmitTask :: "Task \<Rightarrow> string \<Rightarrow> OutputHandler \<Rightarrow> int \<Rightarrow> system \<Rightarrow> string option \<times> system" where
  \<comment> \<open>The part of \<open>SubmitTask\<close> before \<open>go s.executeTask\<close>.\<close>
  "SubmitTask task clientID outputHandler now s =
     (if sint (currentTasks s) \<ge> sint (globalMaxTasks s)
      then (Some (''system busy: global task limit reached ('' @ fmt_d (sint (currentTasks s))
                  @ ''/'' @ fmt_d (sint (globalMaxTasks s)) @ '')''), s)
      else
        case GetAgent (task_AgentId task) s of
          Inl err \<Rightarrow> (Some (''agent not found: '' @ err), s)
        | Inr agent \<Rightarrow>
            if agent_Status agent \<noteq> AGENT_STATUS_ONLINE
            then (Some (''agent is offline: '' @ task_AgentId task), s)
            else if sint (agent_CurrentTasks agent) \<ge> sint (info_MaxConcurrent (agent_Info agent))
            then (Some (''agent busy: task limit reached ('' @ fmt_d (sint (agent_CurrentTasks agent))
                        @ ''/'' @ fmt_d (sint (info_MaxConcurrent (agent_Info agent))) @ '')''), s)
            else
              let s1 = s\<lparr>currentTasks := currentTasks s + 1\<rparr> in
              (case IncrementTaskCount (task_AgentId task) s1 of
                 (Some err, s2) \<Rightarrow> (Some err, s2\<lparr>currentTasks := currentTasks s2 - 1\<rparr>)
               | (None, s2) \<Rightarrow>
                   (None,
                    s2\<lparr>tasks := (tasks s2)(task_TaskId task \<mapsto>
                           \<lparr>ti_Task = task, ti_AgentID = task_AgentId task,
                            ti_Status = TASK_STATUS_PENDING, ti_CreatedAt = now,
                            ti_ClientID = clientID, ti_Cancelled = False\<rparr>),
                        outputHandlers := (outputHandlers s2)(task_TaskId task \<mapsto> outputHandler)\<rparr>)))"

definition Submit :: "Task \<Rightarrow> string \<Rightarrow> OutputHandler \<Rightarrow> exec_env \<Rightarrow> system \<Rightarrow> string option \<times> system" where
  \<comment> \<open>\<open>SubmitTask\<close> with the goroutine it starts run to its end before anything else.\<close>
  "Submit task clientID outputHandler env s =
     (case SubmitTask task clientID outputHandler (env_now env) s of
        (Some err, s1) \<Rightarrow> (Some err, s1)
      | (None, s1) \<Rightarrow> (None, executeTask task env s1))"

definition CancelTask :: "string \<Rightarrow> string option \<Rightarrow> system \<Rightarrow> string option \<times> system" where
  \<comment> \<open>The cancel request to the agent is best effort: its error is logged and dropped.
      The deprecated gRPC cancellation changes nothing in the coordinator.\<close>
  "CancelTask taskID sendErr s =
     (case tasks s taskID of
        None \<Rightarrow> (Some (''task not found: '' @ taskID), s)
      | Some taskInfo \<Rightarrow>
          let s1 = s\<lparr>tasks := (tasks s)(taskID \<mapsto> taskInfo\<lparr>ti_Cancelled := True\<rparr>)\<rparr>;
              s2 = (case GetAgent (ti_AgentID taskInfo) s1 of
                      Inr agent \<Rightarrow>
                        if agent_UseStream agent \<and> streamSender s1
                        then snd (StreamHandler_CancelTaskOnAgent (ti_AgentID taskInfo) taskID sendErr s1)
                        else s1
                    | Inl err \<Rightarrow> s1)
          in (None, completeTask taskID TASK_STATUS_CANCELLED s2))"

section \<open>Stream handler (master/server/stream_handler.go)\<close>

datatype RegisterPayload = NoRegister | NoAgentInfo | AgentInfoOf AgentInfo

datatype AgentMessage =
    TYPE_REGISTER RegisterPayload
  | TYPE_HEARTBEAT "(string \<times> int32) option"
  | TYPE_TASK_OUTPUT "TaskOutput option"
  | TYPE_TASK_COMPLETE "TaskOutput option"
  | TYPE_TASK_FAILED "TaskOutput option"
  | TYPE_UNKNOWN

text \<open>
  The replies of the two handlers are written to the stream itself; \<open>sendErr\<close> is the
  result of that \<open>stream.Send\<close>.
\<close>

definition handleRegister :: "nat \<Rightarrow> RegisterPayload \<Rightarrow> int \<Rightarrow> string option \<Rightarrow> system \<Rightarrow> string option \<times> system" where
  "handleRegister stream payload now sendErr s =
     (case payload of
        NoRegister \<Rightarrow> (Some ''missing registration data'', s)
      | NoAgentInfo \<Rightarrow> (Some ''missing agent info'', s)
      | AgentInfoOf agentInfo \<Rightarrow>
          let s1 = RegisterAgentStream (info_Id agentInfo) stream s in
          (case RegisterAgentFromStream agentInfo now s1 of
             (Some err, s2) \<Rightarrow> (Some err, UnregisterAgentStream (info_Id agentInfo) s2)
           | (None, s2) \<Rightarrow>
               (case sendErr of
                  Some err \<Rightarrow> (Some err, s2)
                | None \<Rightarrow>
                    (None, s2\<lparr>sentToAgent := sentToAgent s2 @
                              [(info_Id agentInfo,
                                RegisterResponseMsg True ''Registration successful'')]\<rparr>))))"

definition handleHeartbeat :: "(string \<times> int32) option \<Rightarrow> int \<Rightarrow> string option \<Rightarrow> system \<Rightarrow> string option \<times> system" where
  \<comment> \<open>The count travels as \<open>int32\<close> and is widened to \<open>int\<close> for \<open>UpdateHeartbeat\<close>,
      whose own error is dropped.\<close>
  "handleHeartbeat payload now sendErr s =
     (case payload of
        None \<Rightarrow> (Some ''missing heartbeat data'', s)
      | Some (agentID, currentTasks') \<Rightarrow>
          let s1 = snd (UpdateHeartbeat agentID (scast currentTasks') now s) in
          (case sendErr of
             Some err \<Rightarrow> (Some err, s1)
           | None \<Rightarrow> (None, s1\<lparr>sentToAgent := sentToAgent s1 @ [(agentID, HeartbeatResponseMsg)]\<rparr>)))"

definition handleTaskMessage :: "TaskOutput option \<Rightarrow> system \<Rightarrow> system" where
  \<comment> \<open>\<open>handleTaskOutput\<close>, \<open>handleTaskComplete\<close> and \<open>handleTaskFailed\<close> differ in their log line only.\<close>
  "handleTaskMessage output s =
     (case output of
        None \<Rightarrow> s
      | Some out \<Rightarrow> if taskOutputHandler s then HandleTaskOutput (Some out) s else s)"

definition AgentStream_cleanup :: "string \<Rightarrow> bool \<Rightarrow> system \<Rightarrow> system" where
  \<comment> \<open>The deferred function of \<open>AgentStream\<close>, run when the stream ends.\<close>
  "AgentStream_cleanup agentID registered s =
     (if registered \<and> agentID \<noteq> []
      then MarkAgentOffline agentID (UnregisterAgentStream agentID s)
      else s)"

text \<open>
  The receive loop over the messages of one stream, each with the clock and the result
  of the reply's \<open>Send\<close>; the list ends where \<open>stream.Recv\<close> returns \<open>EOF\<close>
  or an error. The result carries the local variables \<open>agentID\<close> and \<open>registered\<close>.
\<close>

fun AgentStream_loop ::
  "nat \<Rightarrow> (AgentMessage \<times> int \<times> string option) list \<Rightarrow> string \<Rightarrow> bool \<Rightarrow> system \<Rightarrow> string \<times> bool \<times> system" where
  "AgentStream_loop stream [] agentID registered s = (agentID, registered, s)"
| "AgentStream_loop stream ((msg, now, sendErr) # rest) agentID registered s =
     (case msg of
        TYPE_REGISTER payload \<Rightarrow>
          (case handleRegister stream payload now sendErr s of
             (Some err, s1) \<Rightarrow> (agentID, registered, s1)
           | (None, s1) \<Rightarrow>
               AgentStream_loop stream rest
                 (case payload of AgentInfoOf agentInfo \<Rightarrow> info_Id agentInfo | _ \<Rightarrow> []) True s1)
      | TYPE_HEARTBEAT payload \<Rightarrow>
          AgentStream_loop stream rest agentID registered (snd (handleHeartbeat payload now sendErr s))
      | TYPE_TASK_OUTPUT output \<Rightarrow>
          AgentStream_loop stream rest agentID registered (handleTaskMessage output s)
      | TYPE_TASK_COMPLETE output \<Rightarrow>
          AgentStream_loop stream rest agentID registered (handleTaskMessage output s)
      | TYPE_TASK_FAILED output \<Rightarrow>
          AgentStream_loop stream rest agentID registered (handleTaskMessage output s)
      | TYPE_UNKNOWN \<Rightarrow> AgentStream_loop stream rest agentID registered s)"

definition AgentStream :: "nat \<Rightarrow> (AgentMessage \<times> int \<times> string option) list \<Rightarrow> system \<Rightarrow> system" where
  "AgentStream stream msgs s =
     (case AgentStream_loop stream msgs [] False s of
        (agentID, registered, s1) \<Rightarrow> AgentStream_cleanup agentID registered s1)"

section \<open>Client sessions (package ws)\<close>

datatype WSResponse_Type =
    TYPE_OUTPUT | TYPE_ERROR | TYPE_COMPLETE | TYPE_TASK_STARTED | TYPE_AGENT_LIST
  | TYPE_AGENT_STATUS_UPDATE

definition outputHandler_respType :: "TaskOutput \<Rightarrow> WSResponse_Type" where
  \<comment> \<open>The response type the output handler of \<open>handleExecute\<close> picks for an output.\<close>
  "outputHandler_respType output =
     (case out_Status output of
        TASK_STATUS_COMPLETED \<Rightarrow> TYPE_COMPLETE
      | TASK_STATUS_FAILED \<Rightarrow> TYPE_ERROR
      | TASK_STATUS_CANCELLED \<Rightarrow> TYPE_COMPLETE
      | _ \<Rightarrow> TYPE_OUTPUT)"

definition HandleWebSocket :: "string \<Rightarrow> system \<Rightarrow> system" where
  \<comment> \<open>A new client under the identifier \<open>NewClient\<close> drew for it.\<close>
  "HandleWebSocket clientID s = s\<lparr>clients := insert clientID (clients s)\<rparr>"

definition UnregisterClient :: "string \<Rightarrow> system \<Rightarrow> system" where
  "UnregisterClient clientID s = s\<lparr>clients := clients s - {clientID}\<rparr>"

definition ReadMessages_deferred :: "string \<Rightarrow> system \<Rightarrow> system" where
  \<comment> \<open>The deferred function of \<open>Client.ReadMessages\<close>, run when the connection ends:
      \<open>UnregisterClient\<close>, then closing the connection.\<close>
  "ReadMessages_deferred clientID s = UnregisterClient clientID s"

section \<open>Runs of the coordinator\<close>

text \<open>
  The state \<open>main\<close> builds (\<open>NewManager\<close>, \<open>NewStreamRegistry\<close>, \<open>NewStreamHandler\<close>,
  \<open>NewScheduler\<close>, \<open>NewServer\<close>), for a global ceiling and a heartbeat timeout.
\<close>

definition NewSystem :: "go_int \<Rightarrow> int \<Rightarrow> system" where
  "NewSystem globalMaxTasks' heartbeatTimeout' =
     \<lparr>agents = Map.empty, heartbeatTimeout = heartbeatTimeout', agentStreams = Map.empty,
      taskOutputHandler = False, streamSender = False,
      globalMaxTasks = globalMaxTasks', currentTasks = 0,
      tasks = Map.empty, outputHandlers = Map.empty, clients = {},
      handlerCalls = [], sentToAgent = [], statusChanges = 0\<rparr>"

text \<open>
  What can happen to the coordinator, one entry point per event. A stream's messages
  arrive as separate events, so that other events fall between them; the end of a
  stream is \<open>EvStreamClosed\<close> with the values of the stream's local variables.
  \<open>EvRegister\<close> and \<open>EvHeartbeatRPC\<close> are the unary calls of the gRPC server.
\<close>

datatype event =
    EvSetStreamSender
  | EvSetTaskOutputHandler
  | EvSubmit Task string OutputHandler exec_env
  | EvCancel string "string option"
  | EvDeliverOutput "TaskOutput option"
  | EvRegister AgentInfo int "string option"
  | EvStreamRegister nat RegisterPayload int "string option"
  | EvHeartbeat "(string \<times> int32) option" int "string option"
  | EvHeartbeatRPC string int32 int
  | EvStreamClosed string bool
  | EvCheckOffline int
  | EvClientConnect string
  | EvClientDisconnect string

fun step :: "event \<Rightarrow> system \<Rightarrow> system" where
  "step EvSetStreamSender s = s\<lparr>streamSender := True\<rparr>"
| "step EvSetTaskOutputHandler s = s\<lparr>taskOutputHandler := True\<rparr>"
| "step (EvSubmit task clientID outputHandler env) s = snd (Submit task clientID outputHandler env s)"
| "step (EvCancel taskID sendErr) s = snd (CancelTask taskID sendErr s)"
| "step (EvDeliverOutput output) s = HandleTaskOutput output s"
| "step (EvRegister info now connErr) s = snd (Register info now connErr s)"
| "step (EvStreamRegister stream payload now sendErr) s = snd (handleRegister stream payload now sendErr s)"
| "step (EvHeartbeat payload now sendErr) s = snd (handleHeartbeat payload now sendErr s)"
| "step (EvHeartbeatRPC agentID currentTasks' now) s = snd (UpdateHeartbeat agentID (scast currentTasks') now s)"
| "step (EvStreamClosed agentID registered) s = AgentStream_cleanup agentID registered s"
| "step (EvCheckOffline now) s = checkOfflineAgents now s"
| "step (EvClientConnect clientID) s = HandleWebSocket clientID s"
| "step (EvClientDisconnect clientID) s = ReadMessages_deferred clientID s"

fun run :: "event list \<Rightarrow> system \<Rightarrow> system" where
  "run [] s = s"
| "run (e # es) s = run es (step e s)"

section \<open>Vocabulary of the specification and reference runs\<close>



text \<open>
  A probe \<open>P1\<close>, a task \<open>T1\<close> for it, a dispatch whose send succeeds, and the
  coordinator after \<open>P1\<close> has registered over stream 1 and client \<open>c1\<close> has submitted
  \<open>T1\<close> under a ceiling of 50: \<open>T1\<close> is running on \<open>P1\<close>.
\<close>

definition example_probe :: AgentInfo where
  "example_probe =
     \<lparr>info_Id = ''P1'', info_Name = ''probe one'', info_Location = ''lab'',
      info_Ipv4 = ''203.0.113.45'', info_Ipv6 = ''2001:db8::1'', info_HideIp = True,
      info_MaxConcurrent = 5\<rparr>"

definition example_task :: Task where
  "example_task = \<lparr>task_TaskId = ''T1'', task_AgentId = ''P1'', task_TaskName = ''ping''\<rparr>"

definition example_env :: exec_env where
  "example_env =
     \<lparr>env_now = 10, env_sendErr = None, env_grpcErr = None, env_recv = [], env_recvErr = ''EOF''\<rparr>"

definition example_running :: system where
  "example_running =
     run [EvSetStreamSender, EvSetTaskOutputHandler,
          EvStreamRegister 1 (AgentInfoOf example_probe) 0 None,
          EvClientConnect ''c1'',
          EvSubmit example_task ''c1'' (Func ''c1'') example_env]
       (NewSystem 50 60)"

text \<open>A scheduler with ceiling 0 that holds no task, no handler and counts no task.\<close>

definition idle :: "system \<Rightarrow> bool" where
  "idle s = (tasks s = Map.empty \<and> outputHandlers s = Map.empty
              \<and> currentTasks s = 0 \<and> globalMaxTasks s = 0)"

section \<open>What the scheduler's functions leave alone\<close>

lemmas example_defs = example_running_def example_task_def example_probe_def example_env_def

lemma DecrementTaskCount_frame:
  "tasks (snd (DecrementTaskCount a s)) = tasks s"
  "outputHandlers (snd (DecrementTaskCount a s)) = outputHandlers s"
  "handlerCalls (snd (DecrementTaskCount a s)) = handlerCalls s"
  "currentTasks (snd (DecrementTaskCount a s)) = currentTasks s"
  "globalMaxTasks (snd (DecrementTaskCount a s)) = globalMaxTasks s"
  by (simp_all add: DecrementTaskCount_def split: option.splits)

lemma forwardOutput_calls:
  "handlerCalls (forwardOutput out s) =
     handlerCalls s @ (case outputHandlers s (out_TaskId out) of Some (Func h) \<Rightarrow> [(h, out)] | _ \<Rightarrow> [])"
  by (simp add: forwardOutput_def split: option.splits OutputHandler.splits)

text \<open>\<open>completeTask\<close> calls a handler at most with frames that carry no output line.\<close>

lemma completeTask_calls:
  "\<exists>extra. handlerCalls (completeTask taskID status s) = handlerCalls s @ extra
       \<and> list_all (\<lambda>(h, out). out_OutputLine out = []) extra"
  by (simp add: completeTask_def Let_def DecrementTaskCount_frame
      split: option.splits OutputHandler.splits)

lemma HandleTaskOutput_calls:
  "\<exists>extra. handlerCalls (HandleTaskOutput (Some out) s) =
       handlerCalls (if filterOutput (Some out) then s else forwardOutput out s) @ extra
       \<and> list_all (\<lambda>(h, out). out_OutputLine out = []) extra"
  by (cases "out_Status out") (simp_all add: HandleTaskOutput_def Let_def completeTask_calls)

section \<open>A scheduler with ceiling 0 stays idle\<close>

lemma fmt_d_0: "fmt_d 0 = ''0''"
  by (simp add: fmt_d_def fmt_nat.simps)

lemma SubmitTask_idle:
  "idle s \<Longrightarrow> SubmitTask task clientID h now s =
     (Some ''system busy: global task limit reached (0/0)'', s)"
  by (simp add: idle_def SubmitTask_def fmt_d_0)

lemma completeTask_idle: "idle s \<Longrightarrow> completeTask taskID status s = s"
  by (simp add: idle_def completeTask_def)

lemma forwardOutput_idle: "idle s \<Longrightarrow> forwardOutput out s = s"
  by (simp add: idle_def forwardOutput_def)

lemma HandleTaskOutput_idle: "idle s \<Longrightarrow> HandleTaskOutput output s = s"
  by (cases "output")
     (simp_all add: HandleTaskOutput_def Let_def completeTask_idle forwardOutput_idle)

lemma CancelTask_idle: "idle s \<Longrightarrow> snd (CancelTask taskID sendErr s) = s"
  by (simp add: idle_def CancelTask_def)

lemma Register_idle: "idle s \<Longrightarrow> idle (snd (Register info now connErr s))"
  by (simp add: idle_def Register_def split: option.splits)

lemma handleRegister_idle: "idle s \<Longrightarrow> idle (snd (handleRegister stream payload now sendErr s))"
  by (simp add: idle_def handleRegister_def RegisterAgentStream_def RegisterAgentFromStream_def
      notifyStatusChange_def UnregisterAgentStream_def Let_def
      split: option.splits RegisterPayload.splits)

lemma handleHeartbeat_idle: "idle s \<Longrightarrow> idle (snd (handleHeartbeat payload now sendErr s))"
  by (simp add: idle_def handleHeartbeat_def UpdateHeartbeat_def Let_def
      split: option.splits prod.splits)

lemma UpdateHeartbeat_idle: "idle s \<Longrightarrow> idle (snd (UpdateHeartbeat agentID count now s))"
  by (simp add: idle_def UpdateHeartbeat_def split: option.splits)

lemma AgentStream_cleanup_idle: "idle s \<Longrightarrow> idle (AgentStream_cleanup agentID registered s)"
  by (simp add: idle_def AgentStream_cleanup_def MarkAgentOffline_def UnregisterAgentStream_def
      notifyStatusChange_def split: option.splits)

lemma step_idle: "idle s \<Longrightarrow> idle (step e s)"
proof (cases e)
  case (EvSubmit task clientID h env)
  assume "idle s"
  then show ?thesis by (simp add: EvSubmit Submit_def SubmitTask_idle)
qed (simp_all add: CancelTask_idle HandleTaskOutput_idle Register_idle handleRegister_idle
       handleHeartbeat_idle UpdateHeartbeat_idle AgentStream_cleanup_idle,
     simp_all add: idle_def checkOfflineAgents_def HandleWebSocket_def ReadMessages_deferred_def
       UnregisterClient_def)

lemma run_idle: "idle s \<Longrightarrow> idle (run evs s)"
  by (induction evs arbitrary: s) (simp_all add: step_idle)

lemma NewSystem_idle: "idle (NewSystem 0 timeout)"
  by (simp add: idle_def NewSystem_def)

section \<open>Terminal frames (claim C1)\<close>

text \<open>
  Claim C1 asks for exactly one terminal frame per admitted task, and for no second
  terminal frame of the same status when the probe itself delivers one. The code at
  that input: \<open>T1\<close> is running and the probe delivers its Completed output.
  \<open>HandleTaskOutput\<close> forwards the probe's frame and \<open>completeTask\<close> then calls the
  same handler with a frame of its own, so the handler of \<open>T1\<close> receives two frames of
  status Completed, and both reach the client as a \<open>Complete\<close> response.
\<close>

theorem C1_probe_terminal_frame_sent_twice:
  "handlerCalls example_running = []
   \<and> handlerCalls
        (HandleTaskOutput
           (Some \<lparr>out_TaskId = ''T1'', out_OutputLine = [], out_ErrorMessage = [],
                  out_Status = TASK_STATUS_COMPLETED, out_Timestamp = Some 20\<rparr>)
           example_running)
      = [(''c1'', \<lparr>out_TaskId = ''T1'', out_OutputLine = [], out_ErrorMessage = [],
                   out_Status = TASK_STATUS_COMPLETED, out_Timestamp = Some 20\<rparr>),
         (''c1'', \<lparr>out_TaskId = ''T1'', out_OutputLine = [], out_ErrorMessage = [],
                   out_Status = TASK_STATUS_COMPLETED, out_Timestamp = None\<rparr>)]
   \<and> map (outputHandler_respType \<circ> snd)
        (handlerCalls
           (HandleTaskOutput
              (Some \<lparr>out_TaskId = ''T1'', out_OutputLine = [], out_ErrorMessage = [],
                     out_Status = TASK_STATUS_COMPLETED, out_Timestamp = Some 20\<rparr>)
              example_running))
      = [TYPE_COMPLETE, TYPE_COMPLETE]"
  unfolding example_defs by code_simp

section \<open>Heartbeats (claim C2)\<close>

text \<open>
  Claim C2 as stated, that a heartbeat leaves an Offline probe Offline, fails: \<open>P1\<close>
  is marked offline, its stream entry is the one it had, and the next heartbeat makes it
  Online.
\<close>

theorem C2_heartbeat_after_offline_counterexample:
  "map_option agent_Status (agents (MarkAgentOffline ''P1'' example_running) ''P1'')
     = Some AGENT_STATUS_OFFLINE
   \<and> map_option agent_Status
        (agents (snd (UpdateHeartbeat ''P1'' 1 70 (MarkAgentOffline ''P1'' example_running))) ''P1'')
     = Some AGENT_STATUS_ONLINE
   \<and> agentStreams (snd (UpdateHeartbeat ''P1'' 1 70 (MarkAgentOffline ''P1'' example_running))) ''P1''
     = agentStreams example_running ''P1''"
  unfolding example_defs by code_simp

text \<open>
  Claim C2, amended: for a probe the manager knows, \<open>UpdateHeartbeat\<close> returns no
  error, refreshes the timestamp and the current-task count, and sets the status to
  Online whatever it was before; nothing else in the coordinator changes (no stream
  is registered and no status-change callback runs).
\<close>

theorem C2_UpdateHeartbeat_sets_online:
  assumes "agents s agentID = Some agent"
  shows "UpdateHeartbeat agentID count now s =
           (None, s\<lparr>agents := (agents s)(agentID \<mapsto>
                      agent\<lparr>agent_LastHeartbeat := now,
                            agent_CurrentTasks := ucast count,
                            agent_Status := AGENT_STATUS_ONLINE\<rparr>)\<rparr>)"
  using assms by (simp add: UpdateHeartbeat_def)

theorem C2_UpdateHeartbeat_sets_online_witness:
  "UpdateHeartbeat ''P1'' 1 70
     ((NewSystem 50 60)\<lparr>agents := [''P1'' \<mapsto>
         \<lparr>agent_Info = example_probe, agent_Status = AGENT_STATUS_OFFLINE,
          agent_LastHeartbeat = 0, agent_CurrentTasks = 0, agent_GRPCConn = False,
          agent_UseStream = True\<rparr>]\<rparr>)
   = (None, (NewSystem 50 60)\<lparr>agents := [''P1'' \<mapsto>
         \<lparr>agent_Info = example_probe, agent_Status = AGENT_STATUS_ONLINE,
          agent_LastHeartbeat = 70, agent_CurrentTasks = 1, agent_GRPCConn = False,
          agent_UseStream = True\<rparr>]\<rparr>)"
proof -
  let ?a = "\<lparr>agent_Info = example_probe, agent_Status = AGENT_STATUS_OFFLINE,
          agent_LastHeartbeat = 0, agent_CurrentTasks = 0, agent_GRPCConn = False,
          agent_UseStream = True\<rparr>"
  let ?s = "(NewSystem 50 60)\<lparr>agents := [''P1'' \<mapsto> ?a]\<rparr>"
  have h: "agents ?s ''P1'' = Some ?a" by simp
  show ?thesis
    using C2_UpdateHeartbeat_sets_online [OF h, of 1 70] by simp
qed

section \<open>The end of a probe's stream (claim C3)\<close>




section \<open>Cancelling twice (claim C4)\<close>

text \<open>
  Claim C4 asks that a second \<open>Cancel\<close> of the same task returns a not-found error and
  changes nothing. The code at that input: \<open>T1\<close> is running and is cancelled, which
  brings the in-flight counter from 1 to 0 and leaves the record of \<open>T1\<close> in the task
  table with status Cancelled. The second \<open>CancelTask\<close> finds that record, returns
  no error, and \<open>completeTask\<close> decrements the in-flight counter again, to -1.
\<close>

theorem C4_second_cancel_finds_task:
  "fst (CancelTask ''T1'' None example_running) = None
   \<and> sint (currentTasks (snd (CancelTask ''T1'' None example_running))) = 0
   \<and> map_option ti_Status (tasks (snd (CancelTask ''T1'' None example_running)) ''T1'')
       = Some TASK_STATUS_CANCELLED
   \<and> fst (CancelTask ''T1'' None (snd (CancelTask ''T1'' None example_running))) = None
   \<and> sint (currentTasks
              (snd (CancelTask ''T1'' None (snd (CancelTask ''T1'' None example_running))))) = - 1"
  unfolding example_defs by code_simp

section \<open>Counters (claim C5)\<close>

text \<open>
  Claim C5 asks that the in-flight counter never be negative under Submit, Cancel and
  DeliverOutput. The code at the sequence of an ordinary cancellation: \<open>T1\<close> is
  submitted (counter 1), cancelled (counter 0), and the probe then delivers its own
  Cancelled frame for \<open>T1\<close>; \<open>completeTask\<close> still finds the record and the
  counter is -1. The probe's own count, which \<open>DecrementTaskCount\<close> guards, stays at 0.
\<close>

theorem C5_in_flight_counter_negative:
  "sint (currentTasks example_running) = 1
   \<and> sint (currentTasks (run [EvCancel ''T1'' None] example_running)) = 0
   \<and> sint (currentTasks
        (run [EvCancel ''T1'' None,
              EvDeliverOutput
                (Some \<lparr>out_TaskId = ''T1'', out_OutputLine = [],
                       out_ErrorMessage = ''Task cancelled'',
                       out_Status = TASK_STATUS_CANCELLED, out_Timestamp = Some 30\<rparr>)]
           example_running)) = - 1
   \<and> map_option (sint \<circ> agent_CurrentTasks)
        (agents
          (run [EvCancel ''T1'' None,
                EvDeliverOutput
                  (Some \<lparr>out_TaskId = ''T1'', out_OutputLine = [],
                         out_ErrorMessage = ''Task cancelled'',
                         out_Status = TASK_STATUS_CANCELLED, out_Timestamp = Some 30\<rparr>)]
             example_running) ''P1'') = Some 0"
  unfolding example_defs by code_simp

section \<open>The end of a client session (claim C6)\<close>

text \<open>
  Claim C6 as stated, that the tasks of a client are cancelled when its session ends,
  fails: client \<open>c1\<close> owns the running task \<open>T1\<close>, its session ends, and the handler
  of \<open>T1\<close> is still registered, \<open>T1\<close> is still Running and counted, and the only
  messages ever sent to the probe are the registration reply and the dispatch of
  \<open>T1\<close>: no cancel request.
\<close>

theorem C6_session_end_keeps_task_counterexample:
  "map_option ti_ClientID (tasks example_running ''T1'') = Some ''c1''
   \<and> ''c1'' \<in> clients example_running
   \<and> ''c1'' \<notin> clients (ReadMessages_deferred ''c1'' example_running)
   \<and> outputHandlers (ReadMessages_deferred ''c1'' example_running) ''T1'' = Some (Func ''c1'')
   \<and> map_option ti_Status (tasks (ReadMessages_deferred ''c1'' example_running) ''T1'')
       = Some TASK_STATUS_RUNNING
   \<and> sint (currentTasks (ReadMessages_deferred ''c1'' example_running)) = 1
   \<and> sentToAgent (ReadMessages_deferred ''c1'' example_running)
       = [(''P1'', RegisterResponseMsg True ''Registration successful''),
          (''P1'', ExecuteTaskMsg example_task)]"
  unfolding example_defs by code_simp

text \<open>
  Claim C6, amended: when a client session ends, the client is removed from the server's
  client table, and that is all: the task records (the client's own among them), the
  output handlers, the in-flight counter, the probes and the messages sent to probes
  are what they were. No handler is unregistered and no cancel is issued.
\<close>

theorem C6_session_end_removes_client_only:
  "clients (ReadMessages_deferred clientID s) = clients s - {clientID}
   \<and> tasks (ReadMessages_deferred clientID s) = tasks s
   \<and> outputHandlers (ReadMessages_deferred clientID s) = outputHandlers s
   \<and> currentTasks (ReadMessages_deferred clientID s) = currentTasks s
   \<and> agents (ReadMessages_deferred clientID s) = agents s
   \<and> handlerCalls (ReadMessages_deferred clientID s) = handlerCalls s
   \<and> sentToAgent (ReadMessages_deferred clientID s) = sentToAgent s"
  by (simp add: ReadMessages_deferred_def UnregisterClient_def)

theorem C6_session_end_removes_client_only_witness:
  "clients (ReadMessages_deferred ''c1'' example_running) = {}
   \<and> tasks (ReadMessages_deferred ''c1'' example_running) = tasks example_running
   \<and> outputHandlers (ReadMessages_deferred ''c1'' example_running) = outputHandlers example_running"
proof -
  have c: "clients example_running = {''c1''}"
    unfolding example_defs by code_simp
  show ?thesis
    using C6_session_end_removes_client_only [of "''c1''" example_running] c by simp
qed

section \<open>A global ceiling of 0 (claim C7)\<close>

text \<open>
  Claim C7: a scheduler built with a global ceiling of 0 rejects every submission with
  the system-busy error (global task limit reached), whatever the task, the probe, the
  client and whatever happened to the coordinator before, and the rejected submission
  changes nothing: in particular it creates no task record and no handler, and there is
  none.
\<close>

theorem C7_global_max_zero_rejects:
  "SubmitTask task clientID h now (run evs (NewSystem 0 timeout)) =
     (Some ''system busy: global task limit reached (0/0)'', run evs (NewSystem 0 timeout))
   \<and> tasks (run evs (NewSystem 0 timeout)) = Map.empty
   \<and> outputHandlers (run evs (NewSystem 0 timeout)) = Map.empty"
  using run_idle [OF NewSystem_idle, of evs timeout]
  by (simp add: SubmitTask_idle) (simp add: idle_def)

theorem C7_global_max_zero_rejects_witness:
  "fst (SubmitTask example_task ''c1'' (Func ''c1'') 10
          (run [EvSetStreamSender, EvStreamRegister 1 (AgentInfoOf example_probe) 0 None,
                EvSubmit example_task ''c1'' (Func ''c1'') example_env,
                EvCancel ''T1'' None]
             (NewSystem 0 60)))
     = Some ''system busy: global task limit reached (0/0)''"
  using C7_global_max_zero_rejects
          [of example_task "''c1''" "Func ''c1''" 10
              "[EvSetStreamSender, EvStreamRegister 1 (AgentInfoOf example_probe) 0 None,
                EvSubmit example_task ''c1'' (Func ''c1'') example_env,
                EvCancel ''T1'' None]" 60]
  by simp

section \<open>IP masking (claims C8 and C10)\<close>

text \<open>
  Claim C8 gives three values of the masking function. The code at these inputs:
  without masking every address is returned as it is, and \<open>203.0.113.45\<close> masks to
  \<open>203.0.*.*\<close>, as claimed; \<open>2001:db8::1\<close> masks to a string that ends in
  \<open>0001\<close>, the last group as \<open>expandIPv6\<close> padded it, not in \<open>1\<close> as claimed
  (and as the comment of \<open>maskIPv6Address\<close> says of \<open>fe80::1\<close>).
\<close>

theorem C8_maskIP_values:
  "(\<forall>ip. maskIP ip False = ip)
   \<and> maskIP ''203.0.113.45'' True = ''203.0.*.*''
   \<and> maskIP ''2001:db8::1'' True = ''2001:****:****:****:****:****:****:0001''
   \<and> maskIP ''2001:db8::1'' True \<noteq> ''2001:****:****:****:****:****:****:1''
   \<and> maskIP ''fe80::1'' True = ''fe80:****:****:****:****:****:****:0001''"
proof -
  have a: "\<forall>ip. maskIP ip False = ip" by (simp add: maskIP_def)
  have b: "maskIP ''203.0.113.45'' True = ''203.0.*.*''" by code_simp
  have c: "maskIP ''2001:db8::1'' True = ''2001:****:****:****:****:****:****:0001''" by code_simp
  have d: "maskIP ''fe80::1'' True = ''fe80:****:****:****:****:****:****:0001''" by code_simp
  show ?thesis using a b c d by simp
qed

text \<open>The values of C8 at a probe that hides its addresses and at one that does not.\<close>

theorem C8_maskIP_values_witness:
  "maskIP (info_Ipv6 example_probe) (info_HideIp example_probe)
     = ''2001:****:****:****:****:****:****:0001''
   \<and> maskIP (info_Ipv4 example_probe) (info_HideIp example_probe) = ''203.0.*.*''
   \<and> maskIP (info_Ipv4 example_probe) False = ''203.0.113.45''"
  using C8_maskIP_values by (simp add: example_probe_def)




section \<open>Output filtering (claim C9)\<close>

text \<open>
  Claim C9: a \<open>nil\<close> output is filtered and delivering it changes nothing; and when a
  handler is registered for the task of an output, the handler is called with that
  output (right after the calls made before) exactly if its line contains none of
  \<open>MapTrace URL\<close>, \<open>NextTrace\<close> and \<open>IP Geo Data Provider\<close>.
\<close>

theorem C9_forwarded_iff_not_denylisted:
  assumes "outputHandlers s (out_TaskId out) = Some (Func h)"
  shows "filterOutput None \<and> HandleTaskOutput None s = s
         \<and> (prefix (handlerCalls s @ [(h, out)]) (handlerCalls (HandleTaskOutput (Some out) s))
              \<longleftrightarrow> \<not> (strings_Contains (out_OutputLine out) ''MapTrace URL''
                     \<or> strings_Contains (out_OutputLine out) ''NextTrace''
                     \<or> strings_Contains (out_OutputLine out) ''IP Geo Data Provider''))"
proof -
  obtain extra where e: "handlerCalls (HandleTaskOutput (Some out) s) =
       handlerCalls (if filterOutput (Some out) then s else forwardOutput out s) @ extra"
      and l: "list_all (\<lambda>(h, out). out_OutputLine out = []) extra"
    using HandleTaskOutput_calls by blast
  have f: "filterOutput (Some out) \<longleftrightarrow> (strings_Contains (out_OutputLine out) ''MapTrace URL''
                \<or> strings_Contains (out_OutputLine out) ''NextTrace''
                \<or> strings_Contains (out_OutputLine out) ''IP Geo Data Provider'')"
    by (simp add: filterOutput_def)
  have n: "filterOutput None \<and> HandleTaskOutput None s = s"
    by (simp add: filterOutput_def HandleTaskOutput_def)
  show ?thesis
  proof (cases "filterOutput (Some out)")
    case True
    then have line: "out_OutputLine out \<noteq> []"
      by (auto simp add: f)
    have "\<not> prefix [(h, out)] extra"
    proof
      assume "prefix [(h, out)] extra"
      then obtain rest where "extra = (h, out) # rest" by (auto simp add: prefix_def)
      with l line show False by simp
    qed
    then have "\<not> prefix (handlerCalls s @ [(h, out)]) (handlerCalls (HandleTaskOutput (Some out) s))"
      using True by (simp add: e)
    with True f n show ?thesis by blast
  next
    case False
    then have "handlerCalls (HandleTaskOutput (Some out) s) = (handlerCalls s @ [(h, out)]) @ extra"
      using assms by (simp add: e forwardOutput_calls)
    then have "prefix (handlerCalls s @ [(h, out)]) (handlerCalls (HandleTaskOutput (Some out) s))"
      by (metis prefixI)
    with False f n show ?thesis by blast
  qed
qed

theorem C9_forwarded_iff_not_denylisted_witness:
  "prefix [(''c1'', \<lparr>out_TaskId = ''T1'', out_OutputLine = ''64 bytes from 8.8.8.8'',
                     out_ErrorMessage = [], out_Status = TASK_STATUS_RUNNING,
                     out_Timestamp = Some 20\<rparr>)]
     (handlerCalls
        (HandleTaskOutput
           (Some \<lparr>out_TaskId = ''T1'', out_OutputLine = ''64 bytes from 8.8.8.8'',
                  out_ErrorMessage = [], out_Status = TASK_STATUS_RUNNING,
                  out_Timestamp = Some 20\<rparr>) example_running))
   \<and> \<not> prefix [(''c1'', \<lparr>out_TaskId = ''T1'', out_OutputLine = ''NextTrace v1.2'',
                     out_ErrorMessage = [], out_Status = TASK_STATUS_RUNNING,
                     out_Timestamp = Some 20\<rparr>)]
     (handlerCalls
        (HandleTaskOutput
           (Some \<lparr>out_TaskId = ''T1'', out_OutputLine = ''NextTrace v1.2'',
                  out_ErrorMessage = [], out_Status = TASK_STATUS_RUNNING,
                  out_Timestamp = Some 20\<rparr>) example_running))"
proof -
  let ?o1 = "\<lparr>out_TaskId = ''T1'', out_OutputLine = ''64 bytes from 8.8.8.8'',
               out_ErrorMessage = [], out_Status = TASK_STATUS_RUNNING,
               out_Timestamp = Some 20\<rparr>"
  let ?o2 = "\<lparr>out_TaskId = ''T1'', out_OutputLine = ''NextTrace v1.2'',
               out_ErrorMessage = [], out_Status = TASK_STATUS_RUNNING,
               out_Timestamp = Some 20\<rparr>"
  have h: "outputHandlers example_running ''T1'' = Some (Func ''c1'')"
    unfolding example_defs by code_simp
  have c: "handlerCalls example_running = []"
    unfolding example_defs by code_simp
  have h1: "outputHandlers example_running (out_TaskId ?o1) = Some (Func ''c1'')"
    using h by simp
  have h2: "outputHandlers example_running (out_TaskId ?o2) = Some (Func ''c1'')"
    using h by simp
  have d1: "\<not> (strings_Contains (out_OutputLine ?o1) ''MapTrace URL''
              \<or> strings_Contains (out_OutputLine ?o1) ''NextTrace''
              \<or> strings_Contains (out_OutputLine ?o1) ''IP Geo Data Provider'')"
    by code_simp
  have d2: "strings_Contains (out_OutputLine ?o2) ''NextTrace''"
    by code_simp
  show ?thesis
    using C9_forwarded_iff_not_denylisted [OF h1] C9_forwarded_iff_not_denylisted [OF h2] c d1 d2
    by simp
qed

end
